theory Spec2Isabelle
  imports Main "HOL-Library.Word"
begin

section \<open>The records of main.go\<close>

text \<open>
  The three result structs of \<^verbatim>\<open>main.go\<close> (lines 27-43). Go's \<^verbatim>\<open>uint\<close> is a machine
  word; no arithmetic is done on it, the number is only copied.
\<close>

record as =
  Number :: "64 word"
  Name :: string

record location =
  Continent :: string
  ContinentCode :: string
  Country :: string
  CountryCode :: string
  City :: string

record ipinfo =
  AS :: as
  Location :: location

text \<open>The zero values \<^verbatim>\<open>as{}\<close> and \<^verbatim>\<open>location{}\<close>.\<close>

definition as_zero :: as where
  "as_zero = \<lparr>Number = 0, Name = ''''\<rparr>"

definition location_zero :: location where
  "location_zero =
     \<lparr>Continent = '''', ContinentCode = '''', Country = '''', CountryCode = '''', City = ''''\<rparr>"

section \<open>The collaborators: standard library, geoip2, gin\<close>

text \<open>
  An error value is either the one \<^verbatim>\<open>main.go\<close> builds itself with
  \<^verbatim>\<open>fmt.Errorf("invalid ip address %q", ip)\<close>, or one handed back by a library, of which
  only the message is kept.
\<close>

datatype error = InvalidIP string | LibError string

type_synonym IP = "8 word list"

text \<open>
  The pure library functions the program calls are parameters: \<^verbatim>\<open>net.ParseIP\<close>
  (\<open>None\<close> is Go's \<^verbatim>\<open>nil\<close>), the quoting \<^verbatim>\<open>%q\<close> applies to a string
  (\<^verbatim>\<open>strconv.Quote\<close>), and whether \<^verbatim>\<open>gin.SetMode\<close> panics on a mode.
\<close>

record lib =
  ParseIP :: "string \<Rightarrow> IP option"
  Quote :: "string \<Rightarrow> string"
  gin_SetMode :: "string \<Rightarrow> error option"

text \<open>\<^verbatim>\<open>err.Error()\<close>\<close>

fun Error :: "lib \<Rightarrow> error \<Rightarrow> string" where
  "Error L (InvalidIP ip) = ''invalid ip address '' @ Quote L ip"
| "Error L (LibError msg) = msg"

text \<open>
  The parts of \<^verbatim>\<open>geoip2.ASN\<close> and \<^verbatim>\<open>geoip2.City\<close> that \<^verbatim>\<open>main.go\<close> reads. A
  \<^verbatim>\<open>Names\<close> field is a Go \<^verbatim>\<open>map[string]string\<close>.
\<close>

record ASN =
  AutonomousSystemNumber :: "64 word"
  AutonomousSystemOrganization :: string

record geoip2_City =
  Continent_Code :: string
  Continent_Names :: "string \<rightharpoonup> string"
  Country_IsoCode :: string
  Country_Names :: "string \<rightharpoonup> string"
  City_Names :: "string \<rightharpoonup> string"

text \<open>Indexing a Go map of strings: a missing key gives the zero value, the empty string.\<close>

definition go_index :: "(string \<rightharpoonup> string) \<Rightarrow> string \<Rightarrow> string" where
  "go_index m k = (case m k of None \<Rightarrow> '''' | Some v \<Rightarrow> v)"

text \<open>
  An mmdb file is opaque: it is what it answers. A \<^verbatim>\<open>*geoip2.Reader\<close> is an address into
  a heap of reader objects, each an opened database with the flag that \<^verbatim>\<open>Close\<close> sets.
\<close>

record db =
  ASN_of :: "IP \<Rightarrow> error + ASN"
  City_of :: "IP \<Rightarrow> error + geoip2_City"

record Reader =
  rdb :: db
  closed :: bool

text \<open>
  The trace lists, in program order, every call into geoip2 and every assignment to one of
  the two reader variables.
\<close>

datatype event =
    EvOpen string
  | EvClose nat
  | EvASN nat IP
  | EvCity nat IP
  | EvStoreAsn nat
  | EvStoreLoc nat

record world =
  files :: "string \<Rightarrow> error + db"
  heap :: "Reader list"
  trace :: "event list"

text \<open>\<^verbatim>\<open>geoip2.Open\<close>: a new reader object at a fresh address, or the error of the file.\<close>

definition geoip2_Open ::
  "'a world_scheme \<Rightarrow> string \<Rightarrow> (error + nat) \<times> 'a world_scheme" where
  "geoip2_Open w file =
     (case files w file of
        Inl err \<Rightarrow> (Inl err, w\<lparr>trace := trace w @ [EvOpen file]\<rparr>)
      | Inr d \<Rightarrow>
          (Inr (length (heap w)),
           w\<lparr>heap := heap w @ [\<lparr>rdb = d, closed = False\<rparr>],
             trace := trace w @ [EvOpen file]\<rparr>))"

text \<open>\<^verbatim>\<open>(*Reader).Close\<close>; its error result is dropped by \<^verbatim>\<open>unloadDB\<close>.\<close>

definition Reader_Close :: "'a world_scheme \<Rightarrow> nat \<Rightarrow> 'a world_scheme" where
  "Reader_Close w h =
     w\<lparr>heap := (if h < length (heap w)
                then (heap w)[h := (heap w ! h)\<lparr>closed := True\<rparr>]
                else heap w),
       trace := trace w @ [EvClose h]\<rparr>"

text \<open>
  What a lookup through the reader at address \<open>h\<close> answers. A closed reader answers with
  the library's error. An address that was never allocated cannot be held by the program
  (see \<open>wf_state\<close> below); the branch is there to keep the function total.
\<close>

definition closed_error :: error where
  "closed_error = LibError ''cannot call Lookup on a closed database''"

definition lookupASN :: "'a world_scheme \<Rightarrow> nat \<Rightarrow> IP \<Rightarrow> error + ASN" where
  "lookupASN w h ip =
     (if h < length (heap w)
      then (if closed (heap w ! h) then Inl closed_error else ASN_of (rdb (heap w ! h)) ip)
      else Inl (LibError ''nil reader''))"

definition lookupCity :: "'a world_scheme \<Rightarrow> nat \<Rightarrow> IP \<Rightarrow> error + geoip2_City" where
  "lookupCity w h ip =
     (if h < length (heap w)
      then (if closed (heap w ! h) then Inl closed_error else City_of (rdb (heap w ! h)) ip)
      else Inl (LibError ''nil reader''))"

text \<open>\<^verbatim>\<open>(*Reader).ASN\<close> and \<^verbatim>\<open>(*Reader).City\<close>: the answer, and the call in the trace.\<close>

definition Reader_ASN ::
  "'a world_scheme \<Rightarrow> nat \<Rightarrow> IP \<Rightarrow> (error + ASN) \<times> 'a world_scheme" where
  "Reader_ASN w h ip = (lookupASN w h ip, w\<lparr>trace := trace w @ [EvASN h ip]\<rparr>)"

definition Reader_City ::
  "'a world_scheme \<Rightarrow> nat \<Rightarrow> IP \<Rightarrow> (error + geoip2_City) \<times> 'a world_scheme" where
  "Reader_City w h ip = (lookupCity w h ip, w\<lparr>trace := trace w @ [EvCity h ip]\<rparr>)"

section \<open>The program state\<close>

text \<open>
  The package-level variables of \<^verbatim>\<open>main.go\<close> (lines 22-25), on top of the world. The
  four \<^verbatim>\<open>*string\<close> variables are held by value: nothing aliases them.
\<close>

record state = world +
  addr :: string
  asnDB :: string
  geoDB :: string
  lang :: string
  asnReader :: nat
  locReader :: nat

definition defaultAddr :: string where "defaultAddr = '':8080''"
definition defaultMode :: string where "defaultMode = ''release''"
definition defaultLang :: string where "defaultLang = ''en''"
definition defaultAsnDB :: string where "defaultAsnDB = ''./dbip-asn-lite-2021-06.mmdb''"
definition defaultGeoDB :: string where "defaultGeoDB = ''./dbip-city-lite-2021-06.mmdb''"

section \<open>loadDB, unloadDB, init\<close>

definition loadDB ::
  "'a world_scheme \<Rightarrow> string \<Rightarrow> (error + nat) \<times> 'a world_scheme" where
  "loadDB w file = geoip2_Open w file"

definition unloadDB :: "'a world_scheme \<Rightarrow> nat \<Rightarrow> 'a world_scheme" where
  "unloadDB w d = Reader_Close w d"

text \<open>
  \<^verbatim>\<open>os.Getenv\<close> is the function \<open>env\<close> (the empty string for an unset variable);
  \<open>args\<close> maps the name of each flag given on the command line to its value, so that
  \<^verbatim>\<open>flag.String(name, dflt, _)\<close> after \<^verbatim>\<open>flag.Parse()\<close> is \<open>flag_String\<close>. A command
  line that \<^verbatim>\<open>flag.Parse\<close> rejects ends the process there; \<open>args\<close> is one it accepts.
\<close>

definition getenv_or :: "(string \<Rightarrow> string) \<Rightarrow> string \<Rightarrow> string \<Rightarrow> string" where
  "getenv_or env name dflt = (if env name = '''' then dflt else env name)"

definition flag_String :: "(string \<rightharpoonup> string) \<Rightarrow> string \<Rightarrow> string \<Rightarrow> string" where
  "flag_String args name dflt = (case args name of None \<Rightarrow> dflt | Some v \<Rightarrow> v)"

text \<open>The \<^verbatim>\<open>switch *lang\<close> of \<^verbatim>\<open>init\<close> (lines 72-77).\<close>

definition languages :: "string list" where
  "languages = [''en'', ''de'', ''es'', ''fr'', ''ja'', ''pt-BR'', ''ru'', ''zh-CN'']"

definition switch_lang :: "string \<Rightarrow> string" where
  "switch_lang l = (if l \<in> set languages then l else ''en'')"

text \<open>
  \<^verbatim>\<open>init\<close> (lines 45-92). A panic is \<open>Inl\<close>: the process never serves.
\<close>

definition init ::
  "lib \<Rightarrow> (string \<Rightarrow> string) \<Rightarrow> (string \<rightharpoonup> string) \<Rightarrow> world \<Rightarrow> error + state" where
  "init L env args w =
     (let a = getenv_or env ''IPINFO_ADDR'' defaultAddr;
          m = getenv_or env ''IPINFO_MODE'' defaultMode;
          aDB = getenv_or env ''IPINFO_DB_ASN'' defaultAsnDB;
          gDB = getenv_or env ''IPINFO_DB_GEOIP'' defaultGeoDB;
          l = getenv_or env ''IPINFO_LANG'' defaultLang;
          addr0 = flag_String args ''a'' a;
          mode0 = flag_String args ''m'' m;
          asnDB0 = flag_String args ''db_asn'' aDB;
          geoDB0 = flag_String args ''db_geoip'' gDB;
          lang0 = switch_lang (flag_String args ''l'' l)
      in case gin_SetMode L mode0 of
           Some err \<Rightarrow> Inl err
         | None \<Rightarrow>
            (case loadDB w asnDB0 of
               (Inl err, w1) \<Rightarrow> Inl err
             | (Inr r1, w1) \<Rightarrow>
                (let w2 = w1\<lparr>trace := trace w1 @ [EvStoreAsn r1]\<rparr> in
                 case loadDB w2 geoDB0 of
                   (Inl err, w3) \<Rightarrow> Inl err
                 | (Inr r2, w3) \<Rightarrow>
                     Inr \<lparr>files = files w3, heap = heap w3,
                          trace = trace w3 @ [EvStoreLoc r2],
                          addr = addr0, asnDB = asnDB0, geoDB = geoDB0, lang = lang0,
                          asnReader = r1, locReader = r2\<rparr>)))"

section \<open>getAS, getLocation, getIPInfo\<close>

text \<open>
  A Go result \<^verbatim>\<open>(as, error)\<close> is a pair whose second component is \<open>None\<close> for
  \<^verbatim>\<open>nil\<close>. Each function also returns the state, whose trace the reader call extends.
\<close>

definition getAS :: "lib \<Rightarrow> state \<Rightarrow> string \<Rightarrow> (as \<times> error option) \<times> state" where
  "getAS L s ip =
     (case ParseIP L ip of
        None \<Rightarrow> ((as_zero, Some (InvalidIP ip)), s)
      | Some ipaddr \<Rightarrow>
         (case Reader_ASN s (asnReader s) ipaddr of
            (Inl err, s') \<Rightarrow> ((as_zero, Some err), s')
          | (Inr data, s') \<Rightarrow>
              ((\<lparr>Number = AutonomousSystemNumber data,
                 Name = AutonomousSystemOrganization data\<rparr>, None), s')))"

definition getLocation ::
  "lib \<Rightarrow> state \<Rightarrow> string \<Rightarrow> (location \<times> error option) \<times> state" where
  "getLocation L s ip =
     (case ParseIP L ip of
        None \<Rightarrow> ((location_zero, Some (InvalidIP ip)), s)
      | Some ipaddr \<Rightarrow>
         (case Reader_City s (locReader s) ipaddr of
            (Inl err, s') \<Rightarrow> ((location_zero, Some err), s')
          | (Inr geo, s') \<Rightarrow>
              ((\<lparr>Continent = go_index (Continent_Names geo) (lang s'),
                 ContinentCode = Continent_Code geo,
                 Country = go_index (Country_Names geo) (lang s'),
                 CountryCode = Country_IsoCode geo,
                 City = go_index (City_Names geo) (lang s')\<rparr>, None), s')))"

definition getIPInfo ::
  "lib \<Rightarrow> state \<Rightarrow> string \<Rightarrow> (ipinfo \<times> error option) \<times> state" where
  "getIPInfo L s ip =
     (case getAS L s ip of
        ((asData, _), s1) \<Rightarrow>
          (case getLocation L s1 ip of
             ((loData, err), s2) \<Rightarrow> ((\<lparr>AS = asData, Location = loData\<rparr>, err), s2)))"

section \<open>The handlers of main\<close>

text \<open>
  \<^verbatim>\<open>c.JSON(status, body)\<close>; a \<^verbatim>\<open>gin.H\<close> body is the list of its entries. The five
  routes are the five requests; matching a path to a route is gin's work.
\<close>

datatype body =
    H "(string \<times> string) list"
  | AsBody as
  | LocationBody location
  | IpinfoBody ipinfo

datatype response = JSON nat body

definition StatusOK :: nat where "StatusOK = 200"
definition StatusInternalServerError :: nat where "StatusInternalServerError = 500"

datatype request =
    GET_asn_reload
  | GET_asn string
  | GET_geo_reload
  | GET_geo string
  | GET_ipinfo string

text \<open>\<^verbatim>\<open>/asn/reload\<close> (lines 107-119)\<close>

definition asn_reload :: "lib \<Rightarrow> state \<Rightarrow> response \<times> state" where
  "asn_reload L s =
     (case loadDB s (asnDB s) of
        (Inl err, s1) \<Rightarrow>
          (JSON StatusInternalServerError
             (H [(''error'', Error L err),
                 (''message'', ''failed to load database; using previous one...'')]), s1)
      | (Inr newReader, s1) \<Rightarrow>
          (let s2 = unloadDB s1 (asnReader s1);
               s3 = s2\<lparr>asnReader := newReader, trace := trace s2 @ [EvStoreAsn newReader]\<rparr>
           in (JSON StatusOK (H [(''message'', ''asn database reloaded successfully'')]), s3)))"

text \<open>\<^verbatim>\<open>/geo/reload\<close> (lines 130-142)\<close>

definition geo_reload :: "lib \<Rightarrow> state \<Rightarrow> response \<times> state" where
  "geo_reload L s =
     (case loadDB s (geoDB s) of
        (Inl err, s1) \<Rightarrow>
          (JSON StatusInternalServerError
             (H [(''error'', Error L err),
                 (''message'', ''failed to load database; using previous one...'')]), s1)
      | (Inr newReader, s1) \<Rightarrow>
          (let s2 = unloadDB s1 (locReader s1);
               s3 = s2\<lparr>locReader := newReader, trace := trace s2 @ [EvStoreLoc newReader]\<rparr>
           in (JSON StatusOK (H [(''message'', ''geoip database reloaded successfully'')]), s3)))"

text \<open>\<^verbatim>\<open>/asn/:ip\<close>, \<^verbatim>\<open>/geo/:ip\<close>, \<^verbatim>\<open>/ipinfo/:ip\<close> (lines 121-127, 144-159)\<close>

definition asn_ip :: "lib \<Rightarrow> state \<Rightarrow> string \<Rightarrow> response \<times> state" where
  "asn_ip L s ip =
     (case getAS L s ip of
        ((asn, Some err), s') \<Rightarrow>
          (JSON StatusInternalServerError (H [(''error'', Error L err)]), s')
      | ((asn, None), s') \<Rightarrow> (JSON StatusOK (AsBody asn), s'))"

definition geo_ip :: "lib \<Rightarrow> state \<Rightarrow> string \<Rightarrow> response \<times> state" where
  "geo_ip L s ip =
     (case getLocation L s ip of
        ((geo, Some err), s') \<Rightarrow>
          (JSON StatusInternalServerError (H [(''error'', Error L err)]), s')
      | ((geo, None), s') \<Rightarrow> (JSON StatusOK (LocationBody geo), s'))"

definition ipinfo_ip :: "lib \<Rightarrow> state \<Rightarrow> string \<Rightarrow> response \<times> state" where
  "ipinfo_ip L s ip =
     (case getIPInfo L s ip of
        ((ipdata, Some err), s') \<Rightarrow>
          (JSON StatusInternalServerError (H [(''error'', Error L err)]), s')
      | ((ipdata, None), s') \<Rightarrow> (JSON StatusOK (IpinfoBody ipdata), s'))"

fun handle :: "lib \<Rightarrow> state \<Rightarrow> request \<Rightarrow> response \<times> state" where
  "handle L s GET_asn_reload = asn_reload L s"
| "handle L s (GET_asn ip) = asn_ip L s ip"
| "handle L s GET_geo_reload = geo_reload L s"
| "handle L s (GET_geo ip) = geo_ip L s ip"
| "handle L s (GET_ipinfo ip) = ipinfo_ip L s ip"

text \<open>The server taking requests one after the other; the state after the last one.\<close>

fun serve :: "lib \<Rightarrow> state \<Rightarrow> request list \<Rightarrow> state" where
  "serve L s [] = s"
| "serve L s (r # rs) = serve L (snd (handle L s r)) rs"

section \<open>Requests served at the same time\<close>

text \<open>
  \<^verbatim>\<open>r.Run\<close> serves every request in a goroutine of its own, and the handlers take no
  lock. A task is a request in progress. A reload can be overtaken between its statements:
  after \<^verbatim>\<open>loadDB\<close> (line 108 or 131) it holds the new reader and has
  \<^verbatim>\<open>unloadDB\<close> (line 115 or 138) before it, then the assignment (line 116 or 139). A
  lookup is taken as one step, which only leaves interleavings out.
\<close>

datatype task =
    Start request
  | AsnUnload nat
  | AsnStore nat
  | GeoUnload nat
  | GeoStore nat
  | Done response

fun step :: "lib \<Rightarrow> task \<Rightarrow> state \<Rightarrow> task \<times> state" where
  "step L (Start GET_asn_reload) s =
     (case loadDB s (asnDB s) of
        (Inl err, s1) \<Rightarrow>
          (Done (JSON StatusInternalServerError
             (H [(''error'', Error L err),
                 (''message'', ''failed to load database; using previous one...'')])), s1)
      | (Inr newReader, s1) \<Rightarrow> (AsnUnload newReader, s1))"
| "step L (AsnUnload newReader) s = (AsnStore newReader, unloadDB s (asnReader s))"
| "step L (AsnStore newReader) s =
     (Done (JSON StatusOK (H [(''message'', ''asn database reloaded successfully'')])),
      s\<lparr>asnReader := newReader, trace := trace s @ [EvStoreAsn newReader]\<rparr>)"
| "step L (Start GET_geo_reload) s =
     (case loadDB s (geoDB s) of
        (Inl err, s1) \<Rightarrow>
          (Done (JSON StatusInternalServerError
             (H [(''error'', Error L err),
                 (''message'', ''failed to load database; using previous one...'')])), s1)
      | (Inr newReader, s1) \<Rightarrow> (GeoUnload newReader, s1))"
| "step L (GeoUnload newReader) s = (GeoStore newReader, unloadDB s (locReader s))"
| "step L (GeoStore newReader) s =
     (Done (JSON StatusOK (H [(''message'', ''geoip database reloaded successfully'')])),
      s\<lparr>locReader := newReader, trace := trace s @ [EvStoreLoc newReader]\<rparr>)"
| "step L (Start (GET_asn ip)) s = (Done (fst (asn_ip L s ip)), snd (asn_ip L s ip))"
| "step L (Start (GET_geo ip)) s = (Done (fst (geo_ip L s ip)), snd (geo_ip L s ip))"
| "step L (Start (GET_ipinfo ip)) s = (Done (fst (ipinfo_ip L s ip)), snd (ipinfo_ip L s ip))"
| "step L (Done r) s = (Done r, s)"

text \<open>
  A schedule names, step by step, the task that runs next; \<open>run\<close> gives the tasks and
  the state at its end.
\<close>

fun run :: "lib \<Rightarrow> nat list \<Rightarrow> task list \<times> state \<Rightarrow> task list \<times> state" where
  "run L [] c = c"
| "run L (i # sched) (ts, s) =
     (if i < length ts
      then run L sched (ts[i := fst (step L (ts ! i) s)], snd (step L (ts ! i) s))
      else run L sched (ts, s))"

section \<open>Well-formed states and opened paths\<close>

text \<open>
  Both reader variables hold the address of an allocated reader that is not closed, and
  they hold different addresses. \<open>init\<close> establishes this and every handler keeps it
  (lemmas \<open>init_wf\<close> and \<open>handle_wf\<close>).
\<close>

definition wf_state :: "state \<Rightarrow> bool" where
  "wf_state s \<longleftrightarrow>
     asnReader s < length (heap s) \<and> \<not> closed (heap s ! asnReader s) \<and>
     locReader s < length (heap s) \<and> \<not> closed (heap s ! locReader s) \<and>
     asnReader s \<noteq> locReader s"

text \<open>The paths given to \<^verbatim>\<open>geoip2.Open\<close> in a stretch of the trace.\<close>

fun opened :: "event list \<Rightarrow> string list" where
  "opened [] = []"
| "opened (EvOpen p # es) = p # opened es"
| "opened (_ # es) = opened es"

section \<open>A fixture\<close>

text \<open>
  A small world to run the program in: the address \<^verbatim>\<open>8.8.8.8\<close> is the only string
  that parses, the ASN file knows its network, the city file knows its place (with a
  German name for the continent and the country, not for the city), and each of the two
  databases refuses the lookup method of the other.
\<close>

definition ip8 :: IP where
  "ip8 = [0, 0, 0, 0, 0, 0, 0, 0, 0, 0, 255, 255, 8, 8, 8, 8]"

definition fx_lib :: lib where
  "fx_lib =
     \<lparr>ParseIP = (\<lambda>t. if t = ''8.8.8.8'' then Some ip8 else None),
      Quote = (\<lambda>t. [CHR 0x22] @ t @ [CHR 0x22]),
      gin_SetMode = (\<lambda>m. if m \<in> set [''debug'', ''release'', ''test'']
                          then None else Some (LibError (''gin mode unknown: '' @ m)))\<rparr>"

definition fx_asn_db :: db where
  "fx_asn_db =
     \<lparr>ASN_of = (\<lambda>a. Inr \<lparr>AutonomousSystemNumber = (if a = ip8 then 15169 else 0),
                          AutonomousSystemOrganization =
                            (if a = ip8 then ''Google LLC'' else '''')\<rparr>),
      City_of = (\<lambda>a. Inl (LibError ''geoip2: invalid method City''))\<rparr>"

definition fx_city :: geoip2_City where
  "fx_city =
     \<lparr>Continent_Code = ''NA'',
      Continent_Names = [''en'' \<mapsto> ''North America'', ''de'' \<mapsto> ''Nordamerika''],
      Country_IsoCode = ''US'',
      Country_Names = [''en'' \<mapsto> ''United States'', ''de'' \<mapsto> ''Vereinigte Staaten''],
      City_Names = [''en'' \<mapsto> ''Mountain View'']\<rparr>"

definition fx_geo_db :: db where
  "fx_geo_db =
     \<lparr>ASN_of = (\<lambda>a. Inl (LibError ''geoip2: invalid method ASN'')),
      City_of = (\<lambda>a. if a = ip8 then Inr fx_city else Inl (LibError ''no record''))\<rparr>"

definition fx_world :: world where
  "fx_world =
     \<lparr>files = (\<lambda>p. if p = defaultAsnDB then Inr fx_asn_db
                    else if p = defaultGeoDB then Inr fx_geo_db
                    else Inl (LibError ''open: no such file or directory'')),
      heap = [], trace = []\<rparr>"

definition fx_env :: "string \<Rightarrow> string" where
  "fx_env = (\<lambda>_. '''')"

text \<open>
  The state of a server whose two readers were opened on the databases \<open>d1\<close> and
  \<open>d2\<close> and whose language is \<open>l\<close>.
\<close>

definition fx_state :: "db \<Rightarrow> db \<Rightarrow> string \<Rightarrow> state" where
  "fx_state d1 d2 l =
     \<lparr>files = files fx_world,
      heap = [\<lparr>rdb = d1, closed = False\<rparr>, \<lparr>rdb = d2, closed = False\<rparr>],
      trace = [],
      addr = defaultAddr, asnDB = defaultAsnDB, geoDB = defaultGeoDB, lang = l,
      asnReader = 0, locReader = 1\<rparr>"

text \<open>
  The state \<open>init\<close> leaves when it starts on the fixture with the default paths, and
  the same state after the two database files have been removed from the disk.
\<close>

definition fx_started :: "string \<Rightarrow> state" where
  "fx_started l =
     (fx_state fx_asn_db fx_geo_db l)
       \<lparr>trace := [EvOpen defaultAsnDB, EvStoreAsn 0, EvOpen defaultGeoDB, EvStoreLoc 1]\<rparr>"

definition fx_missing :: state where
  "fx_missing =
     (fx_started ''en'')\<lparr>files := (\<lambda>p. Inl (LibError ''open: no such file or directory''))\<rparr>"

section \<open>Lemmas about the operations\<close>

subsection \<open>Results and states of the three queries\<close>

lemma lookupASN_trace [simp]: "lookupASN (w\<lparr>trace := t\<rparr>) h a = lookupASN w h a"
  by (simp add: lookupASN_def)

lemma lookupCity_trace [simp]: "lookupCity (w\<lparr>trace := t\<rparr>) h a = lookupCity w h a"
  by (simp add: lookupCity_def)

lemma getAS_result:
  "fst (getAS L s ip) =
     (case ParseIP L ip of
        None \<Rightarrow> (as_zero, Some (InvalidIP ip))
      | Some a \<Rightarrow>
          (case lookupASN s (asnReader s) a of
             Inl err \<Rightarrow> (as_zero, Some err)
           | Inr d \<Rightarrow> (\<lparr>Number = AutonomousSystemNumber d,
                        Name = AutonomousSystemOrganization d\<rparr>, None)))"
  by (simp add: getAS_def Reader_ASN_def split: option.split sum.split)

lemma getAS_state:
  "snd (getAS L s ip) =
     (case ParseIP L ip of
        None \<Rightarrow> s
      | Some a \<Rightarrow> s\<lparr>trace := trace s @ [EvASN (asnReader s) a]\<rparr>)"
  by (simp add: getAS_def Reader_ASN_def split: option.split sum.split)

lemma getLocation_result:
  "fst (getLocation L s ip) =
     (case ParseIP L ip of
        None \<Rightarrow> (location_zero, Some (InvalidIP ip))
      | Some a \<Rightarrow>
          (case lookupCity s (locReader s) a of
             Inl err \<Rightarrow> (location_zero, Some err)
           | Inr g \<Rightarrow>
               (\<lparr>Continent = go_index (Continent_Names g) (lang s),
                 ContinentCode = Continent_Code g,
                 Country = go_index (Country_Names g) (lang s),
                 CountryCode = Country_IsoCode g,
                 City = go_index (City_Names g) (lang s)\<rparr>, None)))"
  by (simp add: getLocation_def Reader_City_def split: option.split sum.split)

lemma getLocation_state:
  "snd (getLocation L s ip) =
     (case ParseIP L ip of
        None \<Rightarrow> s
      | Some a \<Rightarrow> s\<lparr>trace := trace s @ [EvCity (locReader s) a]\<rparr>)"
  by (simp add: getLocation_def Reader_City_def split: option.split sum.split)

lemma getLocation_after_getAS:
  "fst (getLocation L (snd (getAS L s ip)) ip) = fst (getLocation L s ip)"
  by (simp add: getLocation_result getAS_state split: option.split sum.split)

lemma getIPInfo_result:
  "fst (getIPInfo L s ip) =
     (\<lparr>AS = fst (fst (getAS L s ip)), Location = fst (fst (getLocation L s ip))\<rparr>,
      snd (fst (getLocation L s ip)))"
proof -
  obtain a ea s1 where A: "getAS L s ip = ((a, ea), s1)"
    by (metis surj_pair)
  obtain l el s2 where B: "getLocation L s1 ip = ((l, el), s2)"
    by (metis surj_pair)
  have "fst (getLocation L s ip) = (l, el)"
    using getLocation_after_getAS [of L s ip] A B by simp
  then show ?thesis
    by (simp add: getIPInfo_def A B)
qed

lemma getIPInfo_state:
  "snd (getIPInfo L s ip) = snd (getLocation L (snd (getAS L s ip)) ip)"
proof -
  obtain a ea s1 where A: "getAS L s ip = ((a, ea), s1)"
    by (metis surj_pair)
  obtain l el s2 where B: "getLocation L s1 ip = ((l, el), s2)"
    by (metis surj_pair)
  show ?thesis
    by (simp add: getIPInfo_def A B)
qed

lemma getAS_error_zero:
  "snd (fst (getAS L s ip)) \<noteq> None \<Longrightarrow> fst (fst (getAS L s ip)) = as_zero"
  by (simp add: getAS_result split: option.splits sum.splits)

lemma getLocation_error_zero:
  "snd (fst (getLocation L s ip)) \<noteq> None \<Longrightarrow> fst (fst (getLocation L s ip)) = location_zero"
  by (simp add: getLocation_result split: option.splits sum.splits)

subsection \<open>The two reload handlers\<close>

lemma asn_reload_fail:
  "files s (asnDB s) = Inl err \<Longrightarrow>
   asn_reload L s =
     (JSON StatusInternalServerError
        (H [(''error'', Error L err),
            (''message'', ''failed to load database; using previous one...'')]),
      s\<lparr>trace := trace s @ [EvOpen (asnDB s)]\<rparr>)"
  by (simp add: asn_reload_def loadDB_def geoip2_Open_def)

lemma geo_reload_fail:
  "files s (geoDB s) = Inl err \<Longrightarrow>
   geo_reload L s =
     (JSON StatusInternalServerError
        (H [(''error'', Error L err),
            (''message'', ''failed to load database; using previous one...'')]),
      s\<lparr>trace := trace s @ [EvOpen (geoDB s)]\<rparr>)"
  by (simp add: geo_reload_def loadDB_def geoip2_Open_def)

lemma asn_reload_ok:
  "files s (asnDB s) = Inr d \<Longrightarrow>
   snd (asn_reload L s) =
     s\<lparr>heap := (heap s @ [\<lparr>rdb = d, closed = False\<rparr>])
                 [asnReader s := ((heap s @ [\<lparr>rdb = d, closed = False\<rparr>]) ! asnReader s)
                                   \<lparr>closed := True\<rparr>],
       trace := trace s @ [EvOpen (asnDB s), EvClose (asnReader s), EvStoreAsn (length (heap s))],
       asnReader := length (heap s)\<rparr>"
  by (simp add: asn_reload_def loadDB_def geoip2_Open_def unloadDB_def Reader_Close_def Let_def
      list_update_beyond)

lemma geo_reload_ok:
  "files s (geoDB s) = Inr d \<Longrightarrow>
   snd (geo_reload L s) =
     s\<lparr>heap := (heap s @ [\<lparr>rdb = d, closed = False\<rparr>])
                 [locReader s := ((heap s @ [\<lparr>rdb = d, closed = False\<rparr>]) ! locReader s)
                                   \<lparr>closed := True\<rparr>],
       trace := trace s @ [EvOpen (geoDB s), EvClose (locReader s), EvStoreLoc (length (heap s))],
       locReader := length (heap s)\<rparr>"
  by (simp add: geo_reload_def loadDB_def geoip2_Open_def unloadDB_def Reader_Close_def Let_def
      list_update_beyond)

text \<open>
  Between the close and the store of a successful reload the variable still holds the
  old reader, which is closed by then: a lookup through it at that point would get the
  error of a closed database. Requests served one after the other never meet that state
  (\<open>serve_wf\<close> below).
\<close>

lemma asn_reload_between:
  "files s (asnDB s) = Inr d \<Longrightarrow> asnReader s < length (heap s) \<Longrightarrow>
   lookupASN (unloadDB (snd (loadDB s (asnDB s))) (asnReader s)) (asnReader s) a =
     Inl closed_error"
  by (simp add: loadDB_def geoip2_Open_def unloadDB_def Reader_Close_def lookupASN_def
      nth_append)

lemma geo_reload_between:
  "files s (geoDB s) = Inr d \<Longrightarrow> locReader s < length (heap s) \<Longrightarrow>
   lookupCity (unloadDB (snd (loadDB s (geoDB s))) (locReader s)) (locReader s) a =
     Inl closed_error"
  by (simp add: loadDB_def geoip2_Open_def unloadDB_def Reader_Close_def lookupCity_def
      nth_append)

lemma asn_reload_opened:
  "opened (drop (length (trace s)) (trace (snd (asn_reload L s)))) = [asnDB s]"
proof (cases "files s (asnDB s)")
  case (Inl err)
  then show ?thesis by (simp add: asn_reload_fail)
next
  case (Inr d)
  then show ?thesis by (simp add: asn_reload_ok)
qed

lemma geo_reload_opened:
  "opened (drop (length (trace s)) (trace (snd (geo_reload L s)))) = [geoDB s]"
proof (cases "files s (geoDB s)")
  case (Inl err)
  then show ?thesis by (simp add: geo_reload_fail)
next
  case (Inr d)
  then show ?thesis by (simp add: geo_reload_ok)
qed

subsection \<open>What no handler changes\<close>

lemma asn_ip_state: "snd (asn_ip L s ip) = snd (getAS L s ip)"
  by (simp add: asn_ip_def split: prod.split option.split)

lemma geo_ip_state: "snd (geo_ip L s ip) = snd (getLocation L s ip)"
  by (simp add: geo_ip_def split: prod.split option.split)

lemma ipinfo_ip_state: "snd (ipinfo_ip L s ip) = snd (getIPInfo L s ip)"
  by (simp add: ipinfo_ip_def split: prod.split option.split)

lemma getAS_keeps:
  "lang (snd (getAS L s ip)) = lang s" "asnDB (snd (getAS L s ip)) = asnDB s"
  "geoDB (snd (getAS L s ip)) = geoDB s" "heap (snd (getAS L s ip)) = heap s"
  "asnReader (snd (getAS L s ip)) = asnReader s" "locReader (snd (getAS L s ip)) = locReader s"
  by (simp_all add: getAS_state split: option.split)

lemma getLocation_keeps:
  "lang (snd (getLocation L s ip)) = lang s" "asnDB (snd (getLocation L s ip)) = asnDB s"
  "geoDB (snd (getLocation L s ip)) = geoDB s" "heap (snd (getLocation L s ip)) = heap s"
  "asnReader (snd (getLocation L s ip)) = asnReader s"
  "locReader (snd (getLocation L s ip)) = locReader s"
  by (simp_all add: getLocation_state split: option.split)

lemma asn_reload_keeps:
  "lang (snd (asn_reload L s)) = lang s" "asnDB (snd (asn_reload L s)) = asnDB s"
  "geoDB (snd (asn_reload L s)) = geoDB s"
  by (cases "files s (asnDB s)"; simp add: asn_reload_fail asn_reload_ok)+

lemma geo_reload_keeps:
  "lang (snd (geo_reload L s)) = lang s" "asnDB (snd (geo_reload L s)) = asnDB s"
  "geoDB (snd (geo_reload L s)) = geoDB s"
  by (cases "files s (geoDB s)"; simp add: geo_reload_fail geo_reload_ok)+

lemma handle_keeps:
  "lang (snd (handle L s r)) = lang s" "asnDB (snd (handle L s r)) = asnDB s"
  "geoDB (snd (handle L s r)) = geoDB s"
  by (cases r; simp add: asn_ip_state geo_ip_state ipinfo_ip_state getIPInfo_state
        getAS_keeps getLocation_keeps asn_reload_keeps geo_reload_keeps)+

lemma serve_keeps:
  "lang (serve L s rs) = lang s" "asnDB (serve L s rs) = asnDB s"
  "geoDB (serve L s rs) = geoDB s"
  by (induction rs arbitrary: s; simp add: handle_keeps)+

subsection \<open>The readers in use are open\<close>

lemma init_Inr:
  assumes "init L env args w = Inr s"
  shows "lang s = switch_lang (flag_String args ''l'' (getenv_or env ''IPINFO_LANG'' defaultLang))"
    and "asnDB s = flag_String args ''db_asn'' (getenv_or env ''IPINFO_DB_ASN'' defaultAsnDB)"
    and "geoDB s = flag_String args ''db_geoip'' (getenv_or env ''IPINFO_DB_GEOIP'' defaultGeoDB)"
    and "addr s = flag_String args ''a'' (getenv_or env ''IPINFO_ADDR'' defaultAddr)"
    and "wf_state s"
  using assms
  by (auto simp add: init_def Let_def loadDB_def geoip2_Open_def wf_state_def nth_append
      split: option.splits sum.splits prod.splits)

lemma asn_reload_wf: "wf_state s \<Longrightarrow> wf_state (snd (asn_reload L s))"
  by (cases "files s (asnDB s)")
     (auto simp add: asn_reload_fail asn_reload_ok wf_state_def nth_append nth_list_update)

lemma geo_reload_wf: "wf_state s \<Longrightarrow> wf_state (snd (geo_reload L s))"
  by (cases "files s (geoDB s)")
     (auto simp add: geo_reload_fail geo_reload_ok wf_state_def nth_append nth_list_update)

lemma getAS_wf: "wf_state s \<Longrightarrow> wf_state (snd (getAS L s ip))"
  by (simp add: wf_state_def getAS_keeps)

lemma getLocation_wf: "wf_state s \<Longrightarrow> wf_state (snd (getLocation L s ip))"
  by (simp add: wf_state_def getLocation_keeps)

lemma handle_wf: "wf_state s \<Longrightarrow> wf_state (snd (handle L s r))"
  by (cases r)
     (simp_all add: asn_ip_state geo_ip_state ipinfo_ip_state getIPInfo_state
        getAS_wf getLocation_wf asn_reload_wf geo_reload_wf)

lemma serve_wf: "wf_state s \<Longrightarrow> wf_state (serve L s rs)"
  by (induction rs arbitrary: s) (simp_all add: handle_wf)

lemma init_wf: "init L env args w = Inr s \<Longrightarrow> wf_state (serve L s rs)"
  by (simp add: init_Inr(5) serve_wf)

subsection \<open>A reload overtaken by a lookup\<close>

text \<open>A task that runs alone does what its handler does.\<close>

lemma run_alone:
  "run L [0, 0, 0] ([Start r], s) = ([Done (fst (handle L s r))], snd (handle L s r))"
proof (cases r)
  case GET_asn_reload
  show ?thesis
  proof (cases "files s (asnDB s)")
    case (Inl err)
    with GET_asn_reload show ?thesis
      by (simp add: asn_reload_def loadDB_def geoip2_Open_def)
  next
    case (Inr d)
    with GET_asn_reload show ?thesis
      by (simp add: asn_reload_def loadDB_def geoip2_Open_def Let_def)
  qed
next
  case GET_geo_reload
  show ?thesis
  proof (cases "files s (geoDB s)")
    case (Inl err)
    with GET_geo_reload show ?thesis
      by (simp add: geo_reload_def loadDB_def geoip2_Open_def)
  next
    case (Inr d)
    with GET_geo_reload show ?thesis
      by (simp add: geo_reload_def loadDB_def geoip2_Open_def Let_def)
  qed
qed simp_all

lemma asn_ip_error:
  assumes "snd (fst (getAS L s ip)) = Some e"
  shows "fst (asn_ip L s ip) = JSON StatusInternalServerError (H [(''error'', Error L e)])"
proof -
  obtain a s' where "getAS L s ip = ((a, Some e), s')"
    using assms by (metis prod.collapse)
  then show ?thesis
    by (simp add: asn_ip_def)
qed

lemma asn_ip_ok:
  assumes "snd (fst (getAS L s ip)) = None"
  shows "fst (asn_ip L s ip) = JSON StatusOK (AsBody (fst (fst (getAS L s ip))))"
proof -
  obtain a s' where "getAS L s ip = ((a, None), s')"
    using assms by (metis prod.collapse)
  then show ?thesis
    by (simp add: asn_ip_def)
qed

lemma geo_ip_error:
  assumes "snd (fst (getLocation L s ip)) = Some e"
  shows "fst (geo_ip L s ip) = JSON StatusInternalServerError (H [(''error'', Error L e)])"
proof -
  obtain a s' where "getLocation L s ip = ((a, Some e), s')"
    using assms by (metis prod.collapse)
  then show ?thesis
    by (simp add: geo_ip_def)
qed

text \<open>
  From every well-formed state whose database file opens: when a lookup runs after the
  reload has closed the current reader and before it has stored the new one, the lookup
  goes to the closed reader and is answered with its error. The trace shows the lookup on
  the old address after its close.
\<close>

lemma asn_lookup_overtakes_reload:
  assumes "files s (asnDB s) = Inr d" and "wf_state s" and "ParseIP L ip = Some a"
  shows "fst (run L [0, 0, 1, 0] ([Start GET_asn_reload, Start (GET_asn ip)], s)) =
           [Done (JSON StatusOK (H [(''message'', ''asn database reloaded successfully'')])),
            Done (JSON StatusInternalServerError (H [(''error'', Error L closed_error)]))]"
    and "trace (snd (run L [0, 0, 1, 0] ([Start GET_asn_reload, Start (GET_asn ip)], s))) =
           trace s @ [EvOpen (asnDB s), EvClose (asnReader s), EvASN (asnReader s) a,
                      EvStoreAsn (length (heap s))]"
proof -
  define s1 where
    "s1 = s\<lparr>heap := heap s @ [\<lparr>rdb = d, closed = False\<rparr>],
             trace := trace s @ [EvOpen (asnDB s)]\<rparr>"
  have l: "loadDB s (asnDB s) = (Inr (length (heap s)), s1)"
    by (simp add: loadDB_def geoip2_Open_def assms(1) s1_def)
  have ar: "asnReader s1 = asnReader s"
    by (simp add: s1_def)
  have b: "lookupASN (unloadDB s1 (asnReader s)) (asnReader s) a = Inl closed_error"
    using asn_reload_between [of s d a] assms(1,2) by (simp add: l wf_state_def)
  have r: "asnReader (unloadDB s1 (asnReader s)) = asnReader s"
    by (simp add: unloadDB_def Reader_Close_def ar)
  have q: "fst (asn_ip L (unloadDB s1 (asnReader s)) ip) =
     JSON StatusInternalServerError (H [(''error'', Error L closed_error)])"
    by (rule asn_ip_error) (simp add: getAS_result assms(3) r b)
  have t: "trace (snd (asn_ip L (unloadDB s1 (asnReader s)) ip)) =
     trace s @ [EvOpen (asnDB s), EvClose (asnReader s), EvASN (asnReader s) a]"
    by (simp add: asn_ip_state getAS_state assms(3) r)
       (simp add: unloadDB_def Reader_Close_def s1_def)
  show "fst (run L [0, 0, 1, 0] ([Start GET_asn_reload, Start (GET_asn ip)], s)) =
           [Done (JSON StatusOK (H [(''message'', ''asn database reloaded successfully'')])),
            Done (JSON StatusInternalServerError (H [(''error'', Error L closed_error)]))]"
    using q by (simp add: l ar)
  show "trace (snd (run L [0, 0, 1, 0] ([Start GET_asn_reload, Start (GET_asn ip)], s))) =
           trace s @ [EvOpen (asnDB s), EvClose (asnReader s), EvASN (asnReader s) a,
                      EvStoreAsn (length (heap s))]"
    using t by (simp add: l ar)
qed

lemma geo_lookup_overtakes_reload:
  assumes "files s (geoDB s) = Inr d" and "wf_state s" and "ParseIP L ip = Some a"
  shows "fst (run L [0, 0, 1, 0] ([Start GET_geo_reload, Start (GET_geo ip)], s)) =
           [Done (JSON StatusOK (H [(''message'', ''geoip database reloaded successfully'')])),
            Done (JSON StatusInternalServerError (H [(''error'', Error L closed_error)]))]"
proof -
  define s1 where
    "s1 = s\<lparr>heap := heap s @ [\<lparr>rdb = d, closed = False\<rparr>],
             trace := trace s @ [EvOpen (geoDB s)]\<rparr>"
  have l: "loadDB s (geoDB s) = (Inr (length (heap s)), s1)"
    by (simp add: loadDB_def geoip2_Open_def assms(1) s1_def)
  have ar: "locReader s1 = locReader s"
    by (simp add: s1_def)
  have b: "lookupCity (unloadDB s1 (locReader s)) (locReader s) a = Inl closed_error"
    using geo_reload_between [of s d a] assms(1,2) by (simp add: l wf_state_def)
  have r: "locReader (unloadDB s1 (locReader s)) = locReader s"
    by (simp add: unloadDB_def Reader_Close_def ar)
  have q: "fst (geo_ip L (unloadDB s1 (locReader s)) ip) =
     JSON StatusInternalServerError (H [(''error'', Error L closed_error)])"
    by (rule geo_ip_error) (simp add: getLocation_result assms(3) r b)
  show ?thesis
    using q by (simp add: l ar)
qed

subsection \<open>Unfolding the fixture\<close>

lemmas fx_defs = fx_lib_def fx_state_def fx_world_def fx_asn_db_def fx_geo_db_def fx_city_def
  lookupASN_def lookupCity_def go_index_def defaultAsnDB_def defaultGeoDB_def

lemma fx_init:
  "init fx_lib fx_env [''l'' \<mapsto> l] fx_world = Inr (fx_started (switch_lang l))"
  by (simp add: init_def Let_def getenv_or_def flag_String_def fx_env_def fx_lib_def
      defaultMode_def loadDB_def geoip2_Open_def fx_world_def fx_started_def fx_state_def
      defaultAsnDB_def defaultGeoDB_def)

section \<open>The claims\<close>

subsection \<open>C1: the combined query\<close>

text \<open>
  C1. For every input string, the error of \<^verbatim>\<open>getIPInfo\<close> is the error of
  \<^verbatim>\<open>getLocation\<close>, whatever \<^verbatim>\<open>getAS\<close> returned: a failure of the AS lookup is
  swallowed, a failure of the location lookup is the failure of the call. The location of
  the result is the one \<^verbatim>\<open>getLocation\<close> returned, the AS is the one \<^verbatim>\<open>getAS\<close>
  returned, and that is the zero \<^verbatim>\<open>as\<close> whenever \<^verbatim>\<open>getAS\<close> returned an error.
\<close>

theorem getIPInfo_partial_failure:
  "fst (getIPInfo L s ip) =
     (\<lparr>AS = fst (fst (getAS L s ip)), Location = fst (fst (getLocation L s ip))\<rparr>,
      snd (fst (getLocation L s ip))) \<and>
   (snd (fst (getAS L s ip)) \<noteq> None \<longrightarrow> AS (fst (fst (getIPInfo L s ip))) = as_zero)"
  by (simp add: getIPInfo_result getAS_error_zero)

text \<open>
  In the fixture: with both readers on the city database the AS lookup fails, and the
  call succeeds with the zero \<^verbatim>\<open>as\<close> and the location of the record; with both on the
  ASN database the location lookup fails and its error is the error of the call; on a
  string that is no address both lookups fail and the call fails.
\<close>

theorem getIPInfo_partial_failure_witness:
  "snd (fst (getAS fx_lib (fx_state fx_geo_db fx_geo_db ''en'') ''8.8.8.8'')) \<noteq> None \<and>
   fst (getIPInfo fx_lib (fx_state fx_geo_db fx_geo_db ''en'') ''8.8.8.8'') =
     (\<lparr>AS = as_zero,
       Location = \<lparr>Continent = ''North America'', ContinentCode = ''NA'',
         Country = ''United States'', CountryCode = ''US'', City = ''Mountain View''\<rparr>\<rparr>, None) \<and>
   snd (fst (getAS fx_lib (fx_state fx_asn_db fx_asn_db ''en'') ''8.8.8.8'')) = None \<and>
   fst (getIPInfo fx_lib (fx_state fx_asn_db fx_asn_db ''en'') ''8.8.8.8'') =
     (\<lparr>AS = \<lparr>Number = 15169, Name = ''Google LLC''\<rparr>, Location = location_zero\<rparr>,
      Some (LibError ''geoip2: invalid method City'')) \<and>
   snd (fst (getAS fx_lib (fx_state fx_asn_db fx_geo_db ''en'') ''not-an-ip'')) \<noteq> None \<and>
   fst (getIPInfo fx_lib (fx_state fx_asn_db fx_geo_db ''en'') ''not-an-ip'') =
     (\<lparr>AS = as_zero, Location = location_zero\<rparr>, Some (InvalidIP ''not-an-ip''))"
proof -
  let ?s1 = "fx_state fx_geo_db fx_geo_db ''en''"
  let ?s2 = "fx_state fx_asn_db fx_asn_db ''en''"
  let ?s3 = "fx_state fx_asn_db fx_geo_db ''en''"
  let ?l = "\<lparr>Continent = ''North America'', ContinentCode = ''NA'',
        Country = ''United States'', CountryCode = ''US'', City = ''Mountain View''\<rparr>"
  have a1: "snd (fst (getAS fx_lib ?s1 ''8.8.8.8'')) \<noteq> None"
    by (simp add: getAS_result fx_defs)
  have l1: "fst (getLocation fx_lib ?s1 ''8.8.8.8'') = (?l, None)"
    by (simp add: getLocation_result fx_defs)
  have a2: "fst (getAS fx_lib ?s2 ''8.8.8.8'') =
      (\<lparr>Number = 15169, Name = ''Google LLC''\<rparr>, None)"
    by (simp add: getAS_result fx_defs)
  have l2: "fst (getLocation fx_lib ?s2 ''8.8.8.8'') =
      (location_zero, Some (LibError ''geoip2: invalid method City''))"
    by (simp add: getLocation_result fx_defs)
  have a3: "snd (fst (getAS fx_lib ?s3 ''not-an-ip'')) \<noteq> None"
    by (simp add: getAS_result fx_lib_def)
  have l3: "fst (getLocation fx_lib ?s3 ''not-an-ip'') =
      (location_zero, Some (InvalidIP ''not-an-ip''))"
    by (simp add: getLocation_result fx_lib_def)
  note T1 = getIPInfo_partial_failure [of fx_lib ?s1 "''8.8.8.8''"]
  note T2 = getIPInfo_partial_failure [of fx_lib ?s2 "''8.8.8.8''"]
  note T3 = getIPInfo_partial_failure [of fx_lib ?s3 "''not-an-ip''"]
  from T1 a1 have z1: "AS (fst (fst (getIPInfo fx_lib ?s1 ''8.8.8.8''))) = as_zero"
    by blast
  from T1 l1 have e1: "Location (fst (fst (getIPInfo fx_lib ?s1 ''8.8.8.8''))) = ?l"
      "snd (fst (getIPInfo fx_lib ?s1 ''8.8.8.8'')) = None"
    by simp_all
  have r1: "fst (getIPInfo fx_lib ?s1 ''8.8.8.8'') = (\<lparr>AS = as_zero, Location = ?l\<rparr>, None)"
  proof (rule prod_eqI)
    show "fst (fst (getIPInfo fx_lib ?s1 ''8.8.8.8'')) =
        fst (\<lparr>AS = as_zero, Location = ?l\<rparr>, None)"
      using z1 e1(1) by (cases "fst (fst (getIPInfo fx_lib ?s1 ''8.8.8.8''))") simp
    show "snd (fst (getIPInfo fx_lib ?s1 ''8.8.8.8'')) =
        snd (\<lparr>AS = as_zero, Location = ?l\<rparr>, None)"
      using e1(2) by simp
  qed
  from T2 a2 l2 have r2: "fst (getIPInfo fx_lib ?s2 ''8.8.8.8'') =
     (\<lparr>AS = \<lparr>Number = 15169, Name = ''Google LLC''\<rparr>, Location = location_zero\<rparr>,
      Some (LibError ''geoip2: invalid method City''))"
    by simp
  from T3 a3 have z3: "AS (fst (fst (getIPInfo fx_lib ?s3 ''not-an-ip''))) = as_zero"
    by blast
  from T3 l3 have e3: "Location (fst (fst (getIPInfo fx_lib ?s3 ''not-an-ip''))) = location_zero"
      "snd (fst (getIPInfo fx_lib ?s3 ''not-an-ip'')) = Some (InvalidIP ''not-an-ip'')"
    by simp_all
  have r3: "fst (getIPInfo fx_lib ?s3 ''not-an-ip'') =
     (\<lparr>AS = as_zero, Location = location_zero\<rparr>, Some (InvalidIP ''not-an-ip''))"
  proof (rule prod_eqI)
    show "fst (fst (getIPInfo fx_lib ?s3 ''not-an-ip'')) =
        fst (\<lparr>AS = as_zero, Location = location_zero\<rparr>, Some (InvalidIP ''not-an-ip''))"
      using z3 e3(1) by (cases "fst (fst (getIPInfo fx_lib ?s3 ''not-an-ip''))") simp
    show "snd (fst (getIPInfo fx_lib ?s3 ''not-an-ip'')) =
        snd (\<lparr>AS = as_zero, Location = location_zero\<rparr>, Some (InvalidIP ''not-an-ip''))"
      using e3(2) by simp
  qed
  have a2': "snd (fst (getAS fx_lib ?s2 ''8.8.8.8'')) = None"
    using a2 by simp
  from a1 r1 a2' r2 a3 r3 show ?thesis by blast
qed

subsection \<open>C2: the order of the steps of a reload\<close>

text \<open>
  C2, as the claim states it, fails: a reload does not store the new reader before it
  closes the old one. In the fixture the reload of the ASN database opens the file,
  gets the new reader 2, and leaves a trace that is not open, store 2, close 0.
\<close>

theorem reload_swap_then_close_counterexample:
  "files (fx_state fx_asn_db fx_geo_db ''en'') (asnDB (fx_state fx_asn_db fx_geo_db ''en'')) =
     Inr fx_asn_db \<and>
   asnReader (fx_state fx_asn_db fx_geo_db ''en'') = 0 \<and>
   asnReader (snd (asn_reload fx_lib (fx_state fx_asn_db fx_geo_db ''en''))) = 2 \<and>
   trace (snd (asn_reload fx_lib (fx_state fx_asn_db fx_geo_db ''en''))) \<noteq>
     trace (fx_state fx_asn_db fx_geo_db ''en'') @
       [EvOpen (asnDB (fx_state fx_asn_db fx_geo_db ''en'')), EvStoreAsn 2, EvClose 0]"
  by (simp add: asn_reload_def loadDB_def geoip2_Open_def unloadDB_def Reader_Close_def
      Let_def fx_state_def fx_world_def)

text \<open>
  C2, amended. Every reload (of the ASN or of the city database) whose open succeeds
  performs its steps in this order: it opens a new reader from the configured path, then
  closes the reader that was current, then stores the new reader as the current one.
\<close>

theorem reload_open_close_store:
  "(files s (asnDB s) = Inr d \<longrightarrow>
      trace (snd (asn_reload L s)) =
        trace s @ [EvOpen (asnDB s), EvClose (asnReader s), EvStoreAsn (length (heap s))] \<and>
      asnReader (snd (asn_reload L s)) = length (heap s)) \<and>
   (files s (geoDB s) = Inr d' \<longrightarrow>
      trace (snd (geo_reload L s)) =
        trace s @ [EvOpen (geoDB s), EvClose (locReader s), EvStoreLoc (length (heap s))] \<and>
      locReader (snd (geo_reload L s)) = length (heap s))"
  by (simp add: asn_reload_ok geo_reload_ok)

theorem reload_open_close_store_witness:
  "files (fx_state fx_asn_db fx_geo_db ''en'') (asnDB (fx_state fx_asn_db fx_geo_db ''en'')) =
     Inr fx_asn_db \<and>
   trace (snd (asn_reload fx_lib (fx_state fx_asn_db fx_geo_db ''en''))) =
     [EvOpen ''./dbip-asn-lite-2021-06.mmdb'', EvClose 0, EvStoreAsn 2] \<and>
   asnReader (snd (asn_reload fx_lib (fx_state fx_asn_db fx_geo_db ''en''))) = 2 \<and>
   files (fx_state fx_asn_db fx_geo_db ''en'') (geoDB (fx_state fx_asn_db fx_geo_db ''en'')) =
     Inr fx_geo_db \<and>
   trace (snd (geo_reload fx_lib (fx_state fx_asn_db fx_geo_db ''en''))) =
     [EvOpen ''./dbip-city-lite-2021-06.mmdb'', EvClose 1, EvStoreLoc 2] \<and>
   locReader (snd (geo_reload fx_lib (fx_state fx_asn_db fx_geo_db ''en''))) = 2"
proof -
  let ?s = "fx_state fx_asn_db fx_geo_db ''en''"
  have f1: "files ?s (asnDB ?s) = Inr fx_asn_db"
    by (simp add: fx_state_def fx_world_def)
  have f2: "files ?s (geoDB ?s) = Inr fx_geo_db"
    by (simp add: fx_state_def fx_world_def defaultAsnDB_def defaultGeoDB_def)
  from reload_open_close_store [of ?s fx_asn_db fx_lib fx_geo_db] f1 f2
  show ?thesis
    by (simp add: fx_state_def defaultAsnDB_def defaultGeoDB_def)
qed

subsection \<open>C3: a reload whose open fails\<close>

text \<open>
  C3. When the open of a reload fails, the handler answers 500 with the error of the open,
  and the state is the one before but for the attempt in the trace: the current reader is
  unchanged, and every \<^verbatim>\<open>getAS\<close> (for the ASN reload) or \<^verbatim>\<open>getLocation\<close> (for the city
  reload) made afterwards returns what it would have returned before.
\<close>

theorem failed_reload_keeps_serving:
  "(files s (asnDB s) = Inl err \<longrightarrow>
      asn_reload L s =
        (JSON StatusInternalServerError
           (H [(''error'', Error L err),
               (''message'', ''failed to load database; using previous one...'')]),
         s\<lparr>trace := trace s @ [EvOpen (asnDB s)]\<rparr>) \<and>
      asnReader (snd (asn_reload L s)) = asnReader s \<and>
      heap (snd (asn_reload L s)) = heap s \<and>
      (\<forall>ip. fst (getAS L (snd (asn_reload L s)) ip) = fst (getAS L s ip))) \<and>
   (files s (geoDB s) = Inl err' \<longrightarrow>
      geo_reload L s =
        (JSON StatusInternalServerError
           (H [(''error'', Error L err'),
               (''message'', ''failed to load database; using previous one...'')]),
         s\<lparr>trace := trace s @ [EvOpen (geoDB s)]\<rparr>) \<and>
      locReader (snd (geo_reload L s)) = locReader s \<and>
      heap (snd (geo_reload L s)) = heap s \<and>
      (\<forall>ip. fst (getLocation L (snd (geo_reload L s)) ip) = fst (getLocation L s ip)))"
proof -
  have asn: "fst (getAS L (s\<lparr>trace := t\<rparr>) ip) = fst (getAS L s ip)" for t ip
    by (simp add: getAS_result split: option.split sum.split)
  have geo: "fst (getLocation L (s\<lparr>trace := t\<rparr>) ip) = fst (getLocation L s ip)" for t ip
    by (simp add: getLocation_result split: option.split sum.split)
  show ?thesis
    by (simp add: asn_reload_fail geo_reload_fail asn geo)
qed

theorem failed_reload_keeps_serving_witness:
  "files fx_missing (asnDB fx_missing) = Inl (LibError ''open: no such file or directory'') \<and>
   fst (asn_reload fx_lib fx_missing) =
     JSON 500 (H [(''error'', ''open: no such file or directory''),
                  (''message'', ''failed to load database; using previous one...'')]) \<and>
   asnReader (snd (asn_reload fx_lib fx_missing)) = 0 \<and>
   fst (getAS fx_lib fx_missing ''8.8.8.8'') =
     (\<lparr>Number = 15169, Name = ''Google LLC''\<rparr>, None) \<and>
   fst (getAS fx_lib (snd (asn_reload fx_lib fx_missing)) ''8.8.8.8'') =
     (\<lparr>Number = 15169, Name = ''Google LLC''\<rparr>, None) \<and>
   files fx_missing (geoDB fx_missing) = Inl (LibError ''open: no such file or directory'') \<and>
   fst (geo_reload fx_lib fx_missing) =
     JSON 500 (H [(''error'', ''open: no such file or directory''),
                  (''message'', ''failed to load database; using previous one...'')]) \<and>
   locReader (snd (geo_reload fx_lib fx_missing)) = 1 \<and>
   fst (getLocation fx_lib (snd (geo_reload fx_lib fx_missing)) ''8.8.8.8'') =
     fst (getLocation fx_lib fx_missing ''8.8.8.8'')"
proof -
  let ?e = "LibError ''open: no such file or directory''"
  have f1: "files fx_missing (asnDB fx_missing) = Inl ?e"
    by (simp add: fx_missing_def)
  have f2: "files fx_missing (geoDB fx_missing) = Inl ?e"
    by (simp add: fx_missing_def)
  have before: "fst (getAS fx_lib fx_missing ''8.8.8.8'') =
      (\<lparr>Number = 15169, Name = ''Google LLC''\<rparr>, None)"
    by (simp add: getAS_result fx_missing_def fx_started_def fx_defs)
  have r0: "asnReader fx_missing = 0" "locReader fx_missing = 1"
    by (simp_all add: fx_missing_def fx_started_def fx_state_def)
  note T = failed_reload_keeps_serving [of fx_missing ?e fx_lib ?e]
  from T f1 have a1: "fst (asn_reload fx_lib fx_missing) =
     JSON 500 (H [(''error'', ''open: no such file or directory''),
                  (''message'', ''failed to load database; using previous one...'')])"
    by (simp add: StatusInternalServerError_def)
  from T f1 r0 have a2: "asnReader (snd (asn_reload fx_lib fx_missing)) = 0"
    by metis
  from T f1 have "fst (getAS fx_lib (snd (asn_reload fx_lib fx_missing)) ''8.8.8.8'') =
      fst (getAS fx_lib fx_missing ''8.8.8.8'')"
    by blast
  with before have a3: "fst (getAS fx_lib (snd (asn_reload fx_lib fx_missing)) ''8.8.8.8'') =
      (\<lparr>Number = 15169, Name = ''Google LLC''\<rparr>, None)"
    by simp
  from T f2 have g1: "fst (geo_reload fx_lib fx_missing) =
     JSON 500 (H [(''error'', ''open: no such file or directory''),
                  (''message'', ''failed to load database; using previous one...'')])"
    by (simp add: StatusInternalServerError_def)
  from T f2 r0 have g2: "locReader (snd (geo_reload fx_lib fx_missing)) = 1"
    by metis
  from T f2 have g3: "fst (getLocation fx_lib (snd (geo_reload fx_lib fx_missing)) ''8.8.8.8'') =
      fst (getLocation fx_lib fx_missing ''8.8.8.8'')"
    by blast
  from f1 f2 before a1 a2 a3 g1 g2 g3 show ?thesis
    by blast
qed

subsection \<open>C4: a string that is not an IP address\<close>

text \<open>
  C4. For every string that \<^verbatim>\<open>net.ParseIP\<close> does not parse, \<^verbatim>\<open>getAS\<close> and
  \<^verbatim>\<open>getLocation\<close> return the error built from that string, whose message is
  \<^verbatim>\<open>invalid ip address\<close> followed by the quoted input, and they leave the state as it
  was: the trace gets no reader call.
\<close>

theorem invalid_ip_rejected:
  "ParseIP L ip = None \<Longrightarrow>
     getAS L s ip = ((as_zero, Some (InvalidIP ip)), s) \<and>
     getLocation L s ip = ((location_zero, Some (InvalidIP ip)), s) \<and>
     Error L (InvalidIP ip) = ''invalid ip address '' @ Quote L ip"
  by (simp add: getAS_def getLocation_def)

theorem invalid_ip_rejected_witness:
  "ParseIP fx_lib ''not-an-ip'' = None \<and>
   getAS fx_lib (fx_started ''en'') ''not-an-ip'' =
     ((as_zero, Some (InvalidIP ''not-an-ip'')), fx_started ''en'') \<and>
   getLocation fx_lib (fx_started ''en'') ''not-an-ip'' =
     ((location_zero, Some (InvalidIP ''not-an-ip'')), fx_started ''en'') \<and>
   Error fx_lib (InvalidIP ''not-an-ip'') =
     ''invalid ip address '' @ [CHR 0x22] @ ''not-an-ip'' @ [CHR 0x22]"
proof -
  have p: "ParseIP fx_lib ''not-an-ip'' = None"
    by (simp add: fx_lib_def)
  from invalid_ip_rejected [OF p, of "fx_started ''en''"] p show ?thesis
    by (simp add: fx_lib_def)
qed

subsection \<open>C5: a reload while lookups are served\<close>

text \<open>
  C5 says that no lookup ever meets a reader that a reload has closed. The code closes
  the current reader before it stores the new one and guards neither step, so the claim
  fails on it. In the fixture, the lookup of \<^verbatim>\<open>8.8.8.8\<close> is answered with the network
  when it is served alone, and when the two requests are served one after the other; but
  under the schedule where it runs between the close and the store of a reload, it goes
  to the closed reader 0 (the trace has the lookup on 0 after the close of 0) and is
  answered 500 with the error of a closed database.
\<close>

theorem lookup_meets_closed_reader:
  "fst (handle fx_lib (fx_started ''en'') (GET_asn ''8.8.8.8'')) =
     JSON 200 (AsBody \<lparr>Number = 15169, Name = ''Google LLC''\<rparr>) \<and>
   fst (run fx_lib [0, 0, 0, 1]
          ([Start GET_asn_reload, Start (GET_asn ''8.8.8.8'')], fx_started ''en'')) =
     [Done (JSON 200 (H [(''message'', ''asn database reloaded successfully'')])),
      Done (JSON 200 (AsBody \<lparr>Number = 15169, Name = ''Google LLC''\<rparr>))] \<and>
   fst (run fx_lib [0, 0, 1, 0]
          ([Start GET_asn_reload, Start (GET_asn ''8.8.8.8'')], fx_started ''en'')) =
     [Done (JSON 200 (H [(''message'', ''asn database reloaded successfully'')])),
      Done (JSON 500 (H [(''error'', ''cannot call Lookup on a closed database'')]))] \<and>
   trace (snd (run fx_lib [0, 0, 1, 0]
          ([Start GET_asn_reload, Start (GET_asn ''8.8.8.8'')], fx_started ''en''))) =
     [EvOpen ''./dbip-asn-lite-2021-06.mmdb'', EvStoreAsn 0,
      EvOpen ''./dbip-city-lite-2021-06.mmdb'', EvStoreLoc 1,
      EvOpen ''./dbip-asn-lite-2021-06.mmdb'', EvClose 0, EvASN 0 ip8, EvStoreAsn 2]"
proof -
  let ?s = "fx_started ''en''"
  have f: "files ?s (asnDB ?s) = Inr fx_asn_db"
    by (simp add: fx_started_def fx_state_def fx_world_def)
  have w: "wf_state ?s"
    by (simp add: wf_state_def fx_started_def fx_state_def)
  have p: "ParseIP fx_lib ''8.8.8.8'' = Some ip8"
    by (simp add: fx_lib_def)
  have alone: "fst (handle fx_lib ?s (GET_asn ''8.8.8.8'')) =
     JSON 200 (AsBody \<lparr>Number = 15169, Name = ''Google LLC''\<rparr>)"
    using asn_ip_ok [of fx_lib ?s "''8.8.8.8''"]
    by (simp add: getAS_result fx_started_def fx_defs StatusOK_def)
  have after: "fst (asn_ip fx_lib (snd (asn_reload fx_lib ?s)) ''8.8.8.8'') =
     JSON 200 (AsBody \<lparr>Number = 15169, Name = ''Google LLC''\<rparr>)"
  proof -
    let ?t = "snd (asn_reload fx_lib ?s)"
    have rd: "asnReader ?t = 2"
      by (simp add: asn_reload_ok [OF f]) (simp add: fx_started_def fx_state_def)
    have hp: "heap ?t =
        [\<lparr>rdb = fx_asn_db, closed = True\<rparr>, \<lparr>rdb = fx_geo_db, closed = False\<rparr>,
         \<lparr>rdb = fx_asn_db, closed = False\<rparr>]"
      by (simp add: asn_reload_ok [OF f]) (simp add: fx_started_def fx_state_def)
    have lk: "lookupASN ?t 2 ip8 =
        Inr \<lparr>AutonomousSystemNumber = 15169, AutonomousSystemOrganization = ''Google LLC''\<rparr>"
      by (simp add: lookupASN_def hp fx_asn_db_def)
    have g: "fst (getAS fx_lib ?t ''8.8.8.8'') =
        (\<lparr>Number = 15169, Name = ''Google LLC''\<rparr>, None)"
      by (simp add: getAS_result p rd lk)
    from asn_ip_ok [of fx_lib ?t "''8.8.8.8''"] g show ?thesis
      by (simp add: StatusOK_def)
  qed
  have seq: "run fx_lib [0, 0, 0] ([Start GET_asn_reload, Start (GET_asn ''8.8.8.8'')], ?s) =
     ([Done (fst (asn_reload fx_lib ?s)), Start (GET_asn ''8.8.8.8'')],
      snd (asn_reload fx_lib ?s))"
    using f by (simp add: asn_reload_def loadDB_def geoip2_Open_def Let_def)
  have ok: "fst (asn_reload fx_lib ?s) =
     JSON 200 (H [(''message'', ''asn database reloaded successfully'')])"
    using f by (simp add: asn_reload_def loadDB_def geoip2_Open_def Let_def StatusOK_def)
  have "run fx_lib [0, 0, 0, 1] ([Start GET_asn_reload, Start (GET_asn ''8.8.8.8'')], ?s) =
     run fx_lib [1] (run fx_lib [0, 0, 0] ([Start GET_asn_reload, Start (GET_asn ''8.8.8.8'')], ?s))"
    by simp
  then have one_by_one:
    "fst (run fx_lib [0, 0, 0, 1] ([Start GET_asn_reload, Start (GET_asn ''8.8.8.8'')], ?s)) =
     [Done (JSON 200 (H [(''message'', ''asn database reloaded successfully'')])),
      Done (JSON 200 (AsBody \<lparr>Number = 15169, Name = ''Google LLC''\<rparr>))]"
    by (simp only: seq) (simp add: ok after)
  have between:
    "fst (run fx_lib [0, 0, 1, 0] ([Start GET_asn_reload, Start (GET_asn ''8.8.8.8'')], ?s)) =
     [Done (JSON 200 (H [(''message'', ''asn database reloaded successfully'')])),
      Done (JSON 500 (H [(''error'', ''cannot call Lookup on a closed database'')]))]"
    using asn_lookup_overtakes_reload(1) [OF f w p]
    by (simp add: closed_error_def StatusOK_def StatusInternalServerError_def)
  have tr:
    "trace (snd (run fx_lib [0, 0, 1, 0]
          ([Start GET_asn_reload, Start (GET_asn ''8.8.8.8'')], ?s))) =
     [EvOpen ''./dbip-asn-lite-2021-06.mmdb'', EvStoreAsn 0,
      EvOpen ''./dbip-city-lite-2021-06.mmdb'', EvStoreLoc 1,
      EvOpen ''./dbip-asn-lite-2021-06.mmdb'', EvClose 0, EvASN 0 ip8, EvStoreAsn 2]"
    using asn_lookup_overtakes_reload(2) [OF f w p]
    by (simp add: fx_started_def fx_state_def defaultAsnDB_def defaultGeoDB_def)
  from alone one_by_one between tr show ?thesis by blast
qed

subsection \<open>C6: the names of a location\<close>

text \<open>
  C6. For every successful \<^verbatim>\<open>getLocation\<close> call there is the record the current city
  reader holds for the parsed address, and each of the continent, country and city fields
  of the result is the entry of that record's name map at the active language, or the
  empty string when the map has no entry there. No other language is consulted.
\<close>

theorem location_names_in_active_language:
  assumes "fst (getLocation L s ip) = (l, None)"
  shows "\<exists>a g. ParseIP L ip = Some a \<and> lookupCity s (locReader s) a = Inr g \<and>
           Continent l = (case Continent_Names g (lang s) of None \<Rightarrow> '''' | Some n \<Rightarrow> n) \<and>
           Country l = (case Country_Names g (lang s) of None \<Rightarrow> '''' | Some n \<Rightarrow> n) \<and>
           City l = (case City_Names g (lang s) of None \<Rightarrow> '''' | Some n \<Rightarrow> n)"
proof (cases "ParseIP L ip")
  case None
  with assms show ?thesis by (simp add: getLocation_result)
next
  case (Some a)
  show ?thesis
  proof (cases "lookupCity s (locReader s) a")
    case (Inl err)
    with Some assms show ?thesis by (simp add: getLocation_result)
  next
    case (Inr g)
    with Some assms have "l =
        \<lparr>Continent = go_index (Continent_Names g) (lang s),
         ContinentCode = Continent_Code g,
         Country = go_index (Country_Names g) (lang s),
         CountryCode = Country_IsoCode g,
         City = go_index (City_Names g) (lang s)\<rparr>"
      by (simp add: getLocation_result)
    with Some Inr show ?thesis by (simp add: go_index_def)
  qed
qed

text \<open>
  In the fixture under German: the continent and the country have a German name, the city
  has only an English one, and the city field is empty.
\<close>

theorem location_names_in_active_language_witness:
  "fst (getLocation fx_lib (fx_state fx_asn_db fx_geo_db ''de'') ''8.8.8.8'') =
     (\<lparr>Continent = ''Nordamerika'', ContinentCode = ''NA'',
       Country = ''Vereinigte Staaten'', CountryCode = ''US'', City = ''''\<rparr>, None) \<and>
   City_Names fx_city ''en'' = Some ''Mountain View'' \<and>
   (\<exists>a g. ParseIP fx_lib ''8.8.8.8'' = Some a \<and>
      lookupCity (fx_state fx_asn_db fx_geo_db ''de'')
        (locReader (fx_state fx_asn_db fx_geo_db ''de'')) a = Inr g \<and>
      ''Nordamerika'' =
        (case Continent_Names g (lang (fx_state fx_asn_db fx_geo_db ''de'')) of
           None \<Rightarrow> '''' | Some n \<Rightarrow> n) \<and>
      ''Vereinigte Staaten'' =
        (case Country_Names g (lang (fx_state fx_asn_db fx_geo_db ''de'')) of
           None \<Rightarrow> '''' | Some n \<Rightarrow> n) \<and>
      '''' =
        (case City_Names g (lang (fx_state fx_asn_db fx_geo_db ''de'')) of
           None \<Rightarrow> '''' | Some n \<Rightarrow> n))"
proof -
  let ?s = "fx_state fx_asn_db fx_geo_db ''de''"
  let ?l = "\<lparr>Continent = ''Nordamerika'', ContinentCode = ''NA'',
       Country = ''Vereinigte Staaten'', CountryCode = ''US'', City = ''''\<rparr>"
  have h: "fst (getLocation fx_lib ?s ''8.8.8.8'') = (?l, None)"
    by (simp add: getLocation_result fx_defs)
  have en: "City_Names fx_city ''en'' = Some ''Mountain View''"
    by (simp add: fx_city_def)
  from location_names_in_active_language [OF h] h en show ?thesis
    by simp
qed

subsection \<open>C7: the language tag\<close>

text \<open>
  C7. When \<^verbatim>\<open>init\<close> succeeds, the language of the state is the requested one (the
  \<^verbatim>\<open>-l\<close> flag, else \<^verbatim>\<open>IPINFO_LANG\<close>, else the default) if that is one of en, de,
  es, fr, ja, pt-BR, ru, zh-CN, and en otherwise; and whatever requests the server then
  handles, the language stays the one \<^verbatim>\<open>init\<close> has set.
\<close>

theorem lang_normalized_at_start:
  assumes "init L env args w = Inr s0"
  shows "(flag_String args ''l'' (getenv_or env ''IPINFO_LANG'' defaultLang)
            \<in> {''en'', ''de'', ''es'', ''fr'', ''ja'', ''pt-BR'', ''ru'', ''zh-CN''} \<longrightarrow>
          lang s0 = flag_String args ''l'' (getenv_or env ''IPINFO_LANG'' defaultLang)) \<and>
         (flag_String args ''l'' (getenv_or env ''IPINFO_LANG'' defaultLang)
            \<notin> {''en'', ''de'', ''es'', ''fr'', ''ja'', ''pt-BR'', ''ru'', ''zh-CN''} \<longrightarrow>
          lang s0 = ''en'') \<and>
         lang (serve L s0 rs) = lang s0"
proof -
  have "lang s0 = switch_lang (flag_String args ''l'' (getenv_or env ''IPINFO_LANG'' defaultLang))"
    using assms by (rule init_Inr(1))
  then show ?thesis
    by (simp add: switch_lang_def languages_def serve_keeps)
qed

text \<open>
  In the fixture started with \<^verbatim>\<open>-l xx\<close> and with \<^verbatim>\<open>-l pt-BR\<close>, then serving a
  lookup and a reload.
\<close>

theorem lang_normalized_at_start_witness:
  "init fx_lib fx_env [''l'' \<mapsto> ''xx''] fx_world = Inr (fx_started ''en'') \<and>
   flag_String [''l'' \<mapsto> ''xx''] ''l'' (getenv_or fx_env ''IPINFO_LANG'' defaultLang) = ''xx'' \<and>
   lang (fx_started ''en'') = ''en'' \<and>
   lang (serve fx_lib (fx_started ''en'') [GET_geo ''8.8.8.8'', GET_geo_reload]) = ''en'' \<and>
   init fx_lib fx_env [''l'' \<mapsto> ''pt-BR''] fx_world = Inr (fx_started ''pt-BR'') \<and>
   lang (fx_started ''pt-BR'') = ''pt-BR'' \<and>
   lang (serve fx_lib (fx_started ''pt-BR'') [GET_geo ''8.8.8.8'', GET_geo_reload]) = ''pt-BR''"
proof -
  have i1: "init fx_lib fx_env [''l'' \<mapsto> ''xx''] fx_world = Inr (fx_started ''en'')"
    using fx_init [of "''xx''"] by (simp add: switch_lang_def languages_def)
  have i2: "init fx_lib fx_env [''l'' \<mapsto> ''pt-BR''] fx_world = Inr (fx_started ''pt-BR'')"
    using fx_init [of "''pt-BR''"] by (simp add: switch_lang_def languages_def)
  have r: "flag_String [''l'' \<mapsto> ''xx''] ''l'' (getenv_or fx_env ''IPINFO_LANG'' defaultLang) = ''xx''"
    by (simp add: flag_String_def)
  from lang_normalized_at_start [OF i1, of "[GET_geo ''8.8.8.8'', GET_geo_reload]"] r
  have x: "lang (fx_started ''en'') = ''en'' \<and>
      lang (serve fx_lib (fx_started ''en'') [GET_geo ''8.8.8.8'', GET_geo_reload]) = ''en''"
    by simp
  from lang_normalized_at_start [OF i2, of "[GET_geo ''8.8.8.8'', GET_geo_reload]"]
  have y: "lang (fx_started ''pt-BR'') = ''pt-BR'' \<and>
      lang (serve fx_lib (fx_started ''pt-BR'') [GET_geo ''8.8.8.8'', GET_geo_reload]) = ''pt-BR''"
    by (simp add: flag_String_def)
  from i1 i2 r x y show ?thesis by blast
qed

subsection \<open>C8: an error comes with the zero record\<close>

text \<open>
  C8. Whenever \<^verbatim>\<open>getAS\<close> or \<^verbatim>\<open>getLocation\<close> returns an error, the record beside it is
  the zero value of its type; so a record that is not the zero value comes with no error.
\<close>

theorem error_comes_with_zero_record:
  "(snd (fst (getAS L s ip)) \<noteq> None \<longrightarrow> fst (fst (getAS L s ip)) = as_zero) \<and>
   (snd (fst (getLocation L s ip)) \<noteq> None \<longrightarrow>
      fst (fst (getLocation L s ip)) = location_zero) \<and>
   (fst (fst (getAS L s ip)) \<noteq> as_zero \<longrightarrow> snd (fst (getAS L s ip)) = None) \<and>
   (fst (fst (getLocation L s ip)) \<noteq> location_zero \<longrightarrow>
      snd (fst (getLocation L s ip)) = None)"
  using getAS_error_zero [of L s ip] getLocation_error_zero [of L s ip] by blast

text \<open>
  In the fixture: an unparsable string for \<^verbatim>\<open>getAS\<close>; the reader's own error for
  \<^verbatim>\<open>getLocation\<close> when the city reader is on the ASN database; and the two
  successful lookups, whose records are not zero and come with no error.
\<close>

theorem error_comes_with_zero_record_witness:
  "snd (fst (getAS fx_lib (fx_started ''en'') ''8.8.8'')) = Some (InvalidIP ''8.8.8'') \<and>
   fst (fst (getAS fx_lib (fx_started ''en'') ''8.8.8'')) = \<lparr>Number = 0, Name = ''''\<rparr> \<and>
   snd (fst (getLocation fx_lib (fx_state fx_asn_db fx_asn_db ''en'') ''8.8.8.8'')) =
     Some (LibError ''geoip2: invalid method City'') \<and>
   fst (fst (getLocation fx_lib (fx_state fx_asn_db fx_asn_db ''en'') ''8.8.8.8'')) =
     \<lparr>Continent = '''', ContinentCode = '''', Country = '''', CountryCode = '''', City = ''''\<rparr> \<and>
   fst (fst (getAS fx_lib (fx_started ''en'') ''8.8.8.8'')) \<noteq> as_zero \<and>
   snd (fst (getAS fx_lib (fx_started ''en'') ''8.8.8.8'')) = None \<and>
   fst (fst (getLocation fx_lib (fx_started ''en'') ''8.8.8.8'')) \<noteq> location_zero \<and>
   snd (fst (getLocation fx_lib (fx_started ''en'') ''8.8.8.8'')) = None"
proof -
  let ?s = "fx_started ''en''"
  let ?t = "fx_state fx_asn_db fx_asn_db ''en''"
  have e1: "snd (fst (getAS fx_lib ?s ''8.8.8'')) = Some (InvalidIP ''8.8.8'')"
    by (simp add: getAS_result fx_lib_def)
  have e2: "snd (fst (getLocation fx_lib ?t ''8.8.8.8'')) =
      Some (LibError ''geoip2: invalid method City'')"
    by (simp add: getLocation_result fx_defs)
  have n1: "fst (fst (getAS fx_lib ?s ''8.8.8.8'')) \<noteq> as_zero"
    by (simp add: getAS_result fx_started_def fx_defs as_zero_def)
  have n2: "fst (fst (getLocation fx_lib ?s ''8.8.8.8'')) \<noteq> location_zero"
    by (simp add: getLocation_result fx_started_def fx_defs location_zero_def)
  from error_comes_with_zero_record [of fx_lib ?s "''8.8.8''"] e1
  have z1: "fst (fst (getAS fx_lib ?s ''8.8.8'')) = \<lparr>Number = 0, Name = ''''\<rparr>"
    by (simp add: as_zero_def)
  from error_comes_with_zero_record [of fx_lib ?t "''8.8.8.8''"] e2
  have z2: "fst (fst (getLocation fx_lib ?t ''8.8.8.8'')) =
     \<lparr>Continent = '''', ContinentCode = '''', Country = '''', CountryCode = '''', City = ''''\<rparr>"
    by (simp add: location_zero_def)
  from error_comes_with_zero_record [of fx_lib ?s "''8.8.8.8''"] n1 n2
  have o: "snd (fst (getAS fx_lib ?s ''8.8.8.8'')) = None \<and>
      snd (fst (getLocation fx_lib ?s ''8.8.8.8'')) = None"
    by blast
  from e1 e2 n1 n2 z1 z2 o show ?thesis by blast
qed

subsection \<open>C9: the codes do not depend on the language\<close>

text \<open>
  C9. Two states with the same reader heap and the same city reader, whatever their
  languages, give the same continent code and the same country code for the same input
  (and fail or succeed together); when the lookup succeeds, the two codes are the code
  fields of the record the reader returned.
\<close>

theorem codes_independent_of_language:
  assumes "heap s2 = heap s1" and "locReader s2 = locReader s1"
  shows "ContinentCode (fst (fst (getLocation L s2 ip))) =
           ContinentCode (fst (fst (getLocation L s1 ip))) \<and>
         CountryCode (fst (fst (getLocation L s2 ip))) =
           CountryCode (fst (fst (getLocation L s1 ip))) \<and>
         snd (fst (getLocation L s2 ip)) = snd (fst (getLocation L s1 ip)) \<and>
         (\<forall>a g. ParseIP L ip = Some a \<and> lookupCity s1 (locReader s1) a = Inr g \<longrightarrow>
            ContinentCode (fst (fst (getLocation L s1 ip))) = Continent_Code g \<and>
            CountryCode (fst (fst (getLocation L s1 ip))) = Country_IsoCode g)"
proof -
  have same: "lookupCity s2 (locReader s2) a = lookupCity s1 (locReader s1) a" for a
    using assms by (simp add: lookupCity_def)
  show ?thesis
    by (simp add: getLocation_result same split: option.split sum.split)
qed

text \<open>In the fixture, under German and under French.\<close>

theorem codes_independent_of_language_witness:
  "heap (fx_started ''fr'') = heap (fx_started ''de'') \<and>
   locReader (fx_started ''fr'') = locReader (fx_started ''de'') \<and>
   lang (fx_started ''fr'') \<noteq> lang (fx_started ''de'') \<and>
   ContinentCode (fst (fst (getLocation fx_lib (fx_started ''de'') ''8.8.8.8''))) = ''NA'' \<and>
   CountryCode (fst (fst (getLocation fx_lib (fx_started ''de'') ''8.8.8.8''))) = ''US'' \<and>
   Continent (fst (fst (getLocation fx_lib (fx_started ''de'') ''8.8.8.8''))) = ''Nordamerika'' \<and>
   ContinentCode (fst (fst (getLocation fx_lib (fx_started ''fr'') ''8.8.8.8''))) = ''NA'' \<and>
   CountryCode (fst (fst (getLocation fx_lib (fx_started ''fr'') ''8.8.8.8''))) = ''US'' \<and>
   Continent (fst (fst (getLocation fx_lib (fx_started ''fr'') ''8.8.8.8''))) = ''''"
proof -
  let ?d = "fx_started ''de''"
  let ?f = "fx_started ''fr''"
  have h: "heap ?f = heap ?d" and r: "locReader ?f = locReader ?d"
    and l: "lang ?f \<noteq> lang ?d"
    by (simp_all add: fx_started_def fx_state_def)
  have p: "ParseIP fx_lib ''8.8.8.8'' = Some ip8"
    by (simp add: fx_lib_def)
  have g: "lookupCity ?d (locReader ?d) ip8 = Inr fx_city"
    by (simp add: fx_started_def fx_defs)
  have nd: "Continent (fst (fst (getLocation fx_lib ?d ''8.8.8.8''))) = ''Nordamerika''"
    by (simp add: getLocation_result fx_started_def fx_defs)
  have nf: "Continent (fst (fst (getLocation fx_lib ?f ''8.8.8.8''))) = ''''"
    by (simp add: getLocation_result fx_started_def fx_defs)
  note T = codes_independent_of_language [OF h r, of fx_lib "''8.8.8.8''"]
  from T p g have cd: "ContinentCode (fst (fst (getLocation fx_lib ?d ''8.8.8.8''))) = ''NA'' \<and>
      CountryCode (fst (fst (getLocation fx_lib ?d ''8.8.8.8''))) = ''US''"
    by (simp add: fx_city_def)
  with T have cf: "ContinentCode (fst (fst (getLocation fx_lib ?f ''8.8.8.8''))) = ''NA'' \<and>
      CountryCode (fst (fst (getLocation fx_lib ?f ''8.8.8.8''))) = ''US''"
    by simp
  from h r l nd nf cd cf show ?thesis by blast
qed

subsection \<open>C10: the path of a reload\<close>

text \<open>
  C10. After \<^verbatim>\<open>init\<close> and any requests, the two database paths are still the ones the
  configuration gave at startup (the \<^verbatim>\<open>-db_asn\<close> and \<^verbatim>\<open>-db_geoip\<close> flags, else the
  environment, else the defaults), and a reload opens exactly that path and no other: a
  reload request carries no path.
\<close>

theorem reload_opens_configured_path:
  assumes "init L env args w = Inr s0"
  shows "asnDB (serve L s0 rs) =
           flag_String args ''db_asn'' (getenv_or env ''IPINFO_DB_ASN'' defaultAsnDB) \<and>
         geoDB (serve L s0 rs) =
           flag_String args ''db_geoip'' (getenv_or env ''IPINFO_DB_GEOIP'' defaultGeoDB) \<and>
         opened (drop (length (trace (serve L s0 rs)))
                   (trace (snd (handle L (serve L s0 rs) GET_asn_reload)))) =
           [flag_String args ''db_asn'' (getenv_or env ''IPINFO_DB_ASN'' defaultAsnDB)] \<and>
         opened (drop (length (trace (serve L s0 rs)))
                   (trace (snd (handle L (serve L s0 rs) GET_geo_reload)))) =
           [flag_String args ''db_geoip'' (getenv_or env ''IPINFO_DB_GEOIP'' defaultGeoDB)]"
  using init_Inr(2,3) [OF assms]
  by (simp add: serve_keeps asn_reload_opened geo_reload_opened)

text \<open>In the fixture started with the default paths, after a lookup and a reload.\<close>

theorem reload_opens_configured_path_witness:
  "init fx_lib fx_env [''l'' \<mapsto> ''en''] fx_world = Inr (fx_started ''en'') \<and>
   asnDB (serve fx_lib (fx_started ''en'') [GET_asn ''8.8.8.8'', GET_asn_reload]) =
     ''./dbip-asn-lite-2021-06.mmdb'' \<and>
   geoDB (serve fx_lib (fx_started ''en'') [GET_asn ''8.8.8.8'', GET_asn_reload]) =
     ''./dbip-city-lite-2021-06.mmdb'' \<and>
   opened (drop (length (trace (serve fx_lib (fx_started ''en'')
                                  [GET_asn ''8.8.8.8'', GET_asn_reload])))
             (trace (snd (handle fx_lib
                (serve fx_lib (fx_started ''en'') [GET_asn ''8.8.8.8'', GET_asn_reload])
                GET_asn_reload)))) =
     [''./dbip-asn-lite-2021-06.mmdb''] \<and>
   opened (drop (length (trace (serve fx_lib (fx_started ''en'')
                                  [GET_asn ''8.8.8.8'', GET_asn_reload])))
             (trace (snd (handle fx_lib
                (serve fx_lib (fx_started ''en'') [GET_asn ''8.8.8.8'', GET_asn_reload])
                GET_geo_reload)))) =
     [''./dbip-city-lite-2021-06.mmdb'']"
proof -
  have i: "init fx_lib fx_env [''l'' \<mapsto> ''en''] fx_world = Inr (fx_started ''en'')"
    using fx_init [of "''en''"] by (simp add: switch_lang_def languages_def)
  from reload_opens_configured_path [OF i, of "[GET_asn ''8.8.8.8'', GET_asn_reload]"] i
  show ?thesis
    by (simp add: flag_String_def getenv_or_def fx_env_def defaultAsnDB_def defaultGeoDB_def)
qed

end
